theory Spec2Isabelle
  imports Main
begin

section \<open>Mood entries, backend responses and the effects of a handler\<close>

text \<open>
  A mood entry as the pages read it from \<open>GET /api/moods\<close>. The field
  \<open>entry_timestamp\<close> is the time value of \<open>new Date(mood.timestamp)\<close> in
  milliseconds since the epoch; \<open>None\<close> is JavaScript's Invalid Date.
\<close>

record mood_entry =
  entry_id :: string
  entry_mood :: string
  entry_note :: string
  entry_detection_method :: string
  entry_timestamp :: "int option"

text \<open>The JSON body of \<open>POST /api/moods\<close>: \<open>{mood, note, detection_method}\<close>.\<close>

record mood_body =
  body_mood :: string
  body_note :: string
  body_detection_method :: string

text \<open>
  An awaited promise of \<open>axios\<close> either rejects (network error, error status)
  or resolves with the response data.
\<close>

datatype 'a response = Rejected | Resolved 'a

text \<open>
  What a handler does to the outside world, in program order. The URL of a request is
  written without the \<open>${API}\<close> prefix. \<open>NavigateLater p\<close> is
  \<open>setTimeout(() => navigate(p), 1000)\<close>; \<open>Download f\<close> is the click on a
  link whose \<open>download\<close> attribute is \<open>f\<close>.
\<close>

datatype effect =
    AxiosGet string
  | AxiosPost string mood_body
  | AxiosPostForm string
  | AxiosDelete string
  | FetchImage
  | WindowConfirm string
  | ToastError string
  | ToastSuccess string
  | ConsoleError string
  | NavigateLater string
  | Download string

text \<open>
  Calendar dates. \<open>isoDate\<close> is \<open>new Date(t).toISOString().split('T')[0]\<close>: the
  UTC calendar day, represented by its number of days since the epoch (the text
  \<open>YYYY-MM-DD\<close> is one-to-one with that number); \<open>toISOString\<close> throws a RangeError
  on an Invalid Date, which is the result \<open>None\<close>.
  \<open>toLocaleDateString\<close> is \<open>new Date(t).toLocaleDateString('en-US', {year: 'numeric',
  month: 'long', day: 'numeric'})\<close>: the calendar day in the host's time zone, where
  \<open>tz t\<close> is the zone's offset from UTC in milliseconds at the instant \<open>t\<close>; it
  does not throw and renders an Invalid Date as the text "Invalid Date".
\<close>

definition msPerDay :: int where
  "msPerDay = 86400000"

definition isoDate :: "int option \<Rightarrow> int option" where
  "isoDate ts = (case ts of None \<Rightarrow> None | Some t \<Rightarrow> Some (t div msPerDay))"

datatype date_string = InvalidDate | LongDate int

definition toLocaleDateString :: "(int \<Rightarrow> int) \<Rightarrow> int option \<Rightarrow> date_string" where
  "toLocaleDateString tz ts =
     (case ts of None \<Rightarrow> InvalidDate | Some t \<Rightarrow> LongDate ((t + tz t) div msPerDay))"

section \<open>Statistics page\<close>

text \<open>
  The data of \<open>GET /api/moods/stats\<close>: \<open>mood_counts\<close> is a JavaScript object,
  kept as the list \<open>Object.entries\<close> returns for it (own properties in property
  order, no key twice).
\<close>

record stats_data =
  mood_counts :: "(string \<times> int) list"

record statistics =
  stats :: "stats_data option"
  statistics_loading :: bool

definition Statistics_init :: statistics where
  "Statistics_init = \<lparr>stats = None, statistics_loading = True\<rparr>"

definition fetchStats :: "stats_data response \<Rightarrow> statistics \<Rightarrow> statistics \<times> effect list" where
  "fetchStats resp s =
     (case resp of
        Resolved d \<Rightarrow>
          (s\<lparr>stats := Some d, statistics_loading := False\<rparr>, [AxiosGet ''/moods/stats''])
      | Rejected \<Rightarrow>
          (s\<lparr>statistics_loading := False\<rparr>,
           [AxiosGet ''/moods/stats'', ConsoleError ''Error fetching statistics:'']))"

text \<open>
  \<open>entries.reduce((max, curr) => curr[1] > max[1] ? curr : max)\<close> has no initial
  value: the first entry starts as \<open>max\<close> and the callback runs on the others,
  left to right.
\<close>

definition pickMax :: "string \<times> int \<Rightarrow> string \<times> int \<Rightarrow> string \<times> int" where
  "pickMax mx cur = (if snd cur > snd mx then cur else mx)"

definition getMostCommonMood :: "statistics \<Rightarrow> (string \<times> int) option" where
  "getMostCommonMood s =
     (case stats s of
        None \<Rightarrow> None
      | Some d \<Rightarrow>
          (case mood_counts d of
             [] \<Rightarrow> None
           | e # es \<Rightarrow>
               (let (mood, count) = foldl pickMax e es
                in if count > 0 then Some (mood, count) else None)))"

definition getTotalEntries :: "statistics \<Rightarrow> int" where
  "getTotalEntries s =
     (case stats s of None \<Rightarrow> 0 | Some d \<Rightarrow> foldl (\<lambda>sum c. sum + c) 0 (map snd (mood_counts d)))"

section \<open>Dashboard page\<close>

record dashboard =
  todayMood :: "mood_entry option"
  recentMoods :: "mood_entry list"
  dashboard_loading :: bool

definition Dashboard_init :: dashboard where
  "Dashboard_init = \<lparr>todayMood = None, recentMoods = [], dashboard_loading = True\<rparr>"

text \<open>
  \<open>moods.filter(mood => new Date(mood.timestamp).toISOString().split('T')[0] === today)\<close>:
  the callback throws on the first entry whose timestamp is an Invalid Date, and the
  exception leaves the filter (\<open>None\<close>).
\<close>

fun filterToday :: "int \<Rightarrow> mood_entry list \<Rightarrow> mood_entry list option" where
  "filterToday today [] = Some []"
| "filterToday today (m # ms) =
     (case isoDate (entry_timestamp m) of
        None \<Rightarrow> None
      | Some moodDate \<Rightarrow>
          (case filterToday today ms of
             None \<Rightarrow> None
           | Some rest \<Rightarrow> Some (if moodDate = today then m # rest else rest)))"

text \<open>
  \<open>fetchTodayMood\<close>, with \<open>now\<close> the time value of \<open>new Date()\<close>. Every
  exception of the \<open>try\<close> block is caught, logged, and changes nothing.
\<close>

definition fetchTodayMood ::
  "mood_entry list response \<Rightarrow> int \<Rightarrow> dashboard \<Rightarrow> dashboard \<times> effect list" where
  "fetchTodayMood resp now s =
     (case resp of
        Rejected \<Rightarrow> (s, [AxiosGet ''/moods'', ConsoleError ''Error fetching today's mood:''])
      | Resolved moods \<Rightarrow>
          (case filterToday (now div msPerDay) moods of
             None \<Rightarrow> (s, [AxiosGet ''/moods'', ConsoleError ''Error fetching today's mood:''])
           | Some todaysMoods \<Rightarrow>
               (case todaysMoods of
                  [] \<Rightarrow> (s, [AxiosGet ''/moods''])
                | m # _ \<Rightarrow> (s\<lparr>todayMood := Some m\<rparr>, [AxiosGet ''/moods'']))))"

definition fetchRecentMoods ::
  "mood_entry list response \<Rightarrow> dashboard \<Rightarrow> dashboard \<times> effect list" where
  "fetchRecentMoods resp s =
     (case resp of
        Resolved d \<Rightarrow>
          (s\<lparr>recentMoods := take 5 d, dashboard_loading := False\<rparr>, [AxiosGet ''/moods''])
      | Rejected \<Rightarrow>
          (s\<lparr>dashboard_loading := False\<rparr>,
           [AxiosGet ''/moods'', ConsoleError ''Error fetching recent moods:'']))"

text \<open>
  What the page renders: the today card shows \<open>todayMood\<close> when it is set
  (\<open>todayMood ? ... : ...\<close>), and the recent-moods card is rendered when
  \<open>recentMoods.length > 0\<close>, one row per element of \<open>recentMoods\<close> in order.
\<close>

definition today_mood_display :: "dashboard \<Rightarrow> mood_entry option" where
  "today_mood_display s = todayMood s"

definition recent_moods_card :: "dashboard \<Rightarrow> mood_entry list option" where
  "recent_moods_card s = (if length (recentMoods s) > 0 then Some (recentMoods s) else None)"

section \<open>History page\<close>

text \<open>
  \<open>groupedMoods\<close> is a JavaScript object from date text to an array of entries, kept
  as its properties in insertion order (the order of \<open>Object.entries\<close>, the keys
  being date texts).
\<close>

record history =
  moods :: "mood_entry list"
  history_loading :: bool
  groupedMoods :: "(date_string \<times> mood_entry list) list"

definition History_init :: history where
  "History_init = \<lparr>moods = [], history_loading = True, groupedMoods = []\<rparr>"

text \<open>
  One call of the \<open>reduce\<close> callback: \<open>if (!acc[date]) acc[date] = []\<close> adds an
  empty bucket at the end when the date has none (an array is never falsy), and
  \<open>acc[date].push(mood)\<close> appends the entry to the bucket of its date.
\<close>

definition groupStep ::
  "(int \<Rightarrow> int) \<Rightarrow> (date_string \<times> mood_entry list) list \<Rightarrow> mood_entry
     \<Rightarrow> (date_string \<times> mood_entry list) list" where
  "groupStep tz acc m =
     (let date = toLocaleDateString tz (entry_timestamp m);
          acc1 = (if map_of acc date = None then acc @ [(date, [])] else acc)
      in map (\<lambda>(d, bucket). if d = date then (d, bucket @ [m]) else (d, bucket)) acc1)"

definition groupMoodsByDate :: "(int \<Rightarrow> int) \<Rightarrow> mood_entry list \<Rightarrow> history \<Rightarrow> history" where
  "groupMoodsByDate tz moodData s = s\<lparr>groupedMoods := foldl (groupStep tz) [] moodData\<rparr>"

definition fetchMoods ::
  "mood_entry list response \<Rightarrow> (int \<Rightarrow> int) \<Rightarrow> history \<Rightarrow> history \<times> effect list" where
  "fetchMoods resp tz s =
     (case resp of
        Resolved moodData \<Rightarrow>
          ((groupMoodsByDate tz moodData (s\<lparr>moods := moodData\<rparr>))\<lparr>history_loading := False\<rparr>,
           [AxiosGet ''/moods''])
      | Rejected \<Rightarrow>
          (s\<lparr>history_loading := False\<rparr>,
           [AxiosGet ''/moods'', ConsoleError ''Error fetching moods:'']))"

text \<open>
  \<open>handleDelete\<close>: \<open>confirmed\<close> is the answer of \<open>window.confirm\<close>,
  \<open>del\<close> the outcome of the DELETE request and \<open>refetch\<close> that of the
  \<open>GET /api/moods\<close> which \<open>fetchMoods()\<close> issues after a successful deletion.
\<close>

definition handleDelete ::
  "bool \<Rightarrow> unit response \<Rightarrow> mood_entry list response \<Rightarrow> (int \<Rightarrow> int) \<Rightarrow> string \<Rightarrow> history
     \<Rightarrow> history \<times> effect list" where
  "handleDelete confirmed del refetch tz moodId s =
     (if \<not> confirmed
      then (s, [WindowConfirm ''Are you sure you want to delete this mood entry?''])
      else
        (case del of
           Resolved _ \<Rightarrow>
             (let (s', effs) = fetchMoods refetch tz s
              in (s', [WindowConfirm ''Are you sure you want to delete this mood entry?'',
                       AxiosDelete (''/moods/'' @ moodId),
                       ToastSuccess ''Mood entry deleted''] @ effs))
         | Rejected \<Rightarrow>
             (s, [WindowConfirm ''Are you sure you want to delete this mood entry?'',
                  AxiosDelete (''/moods/'' @ moodId),
                  ConsoleError ''Error deleting mood:'',
                  ToastError ''Failed to delete mood entry''])))"

definition toUpperCase :: "string \<Rightarrow> string" where
  "toUpperCase str =
     map (\<lambda>c. let n = (of_char c :: nat) in if 97 \<le> n \<and> n \<le> 122 then char_of (n - 32) else c) str"

text \<open>
  \<open>handleExport\<close>, with \<open>today\<close> the text
  \<open>new Date().toISOString().split('T')[0]\<close> and the response a blob.
\<close>

definition handleExport :: "string response \<Rightarrow> string \<Rightarrow> string \<Rightarrow> effect list" where
  "handleExport resp today format =
     (case resp of
        Resolved blob \<Rightarrow>
          [AxiosGet (''/moods/export?format='' @ format),
           Download (''mood_export_'' @ today @ ''.'' @ format),
           ToastSuccess (''Exported as '' @ toUpperCase format)]
      | Rejected \<Rightarrow>
          [AxiosGet (''/moods/export?format='' @ format),
           ConsoleError ''Error exporting data:'',
           ToastError ''Failed to export data''])"

text \<open>
  The events of the page: the mount effect, a click on the delete button of a rendered
  entry, and the two export buttons, which call \<open>handleExport('csv')\<close> and
  \<open>handleExport('json')\<close>. Delete buttons are rendered for the entries of
  \<open>groupedMoods\<close>, once loading is over and \<open>moods\<close> is not empty.
\<close>

datatype history_event =
    HistoryMount "mood_entry list response"
  | ClickDelete string bool "unit response" "mood_entry list response"
  | ClickExportCsv "string response"
  | ClickExportJson "string response"

definition rendered_ids :: "history \<Rightarrow> string list" where
  "rendered_ids s =
     (if history_loading s \<or> length (moods s) = 0 then []
      else map entry_id (concat (map snd (groupedMoods s))))"

definition history_step ::
  "(int \<Rightarrow> int) \<Rightarrow> string \<Rightarrow> history_event \<Rightarrow> history \<Rightarrow> history \<times> effect list" where
  "history_step tz today ev s =
     (case ev of
        HistoryMount resp \<Rightarrow> fetchMoods resp tz s
      | ClickDelete moodId confirmed del refetch \<Rightarrow>
          (if moodId \<in> set (rendered_ids s) then handleDelete confirmed del refetch tz moodId s
           else (s, []))
      | ClickExportCsv resp \<Rightarrow> (s, handleExport resp today ''csv'')
      | ClickExportJson resp \<Rightarrow> (s, handleExport resp today ''json''))"

fun gets :: "effect list \<Rightarrow> string list" where
  "gets [] = []"
| "gets (AxiosGet url # effs) = url # gets effs"
| "gets (_ # effs) = gets effs"

section \<open>Add-mood page\<close>

text \<open>The names of \<open>MOODS\<close> (each also has an emoji and a colour).\<close>

definition MOODS :: "string list" where
  "MOODS = [''happy'', ''sad'', ''angry'', ''anxious'', ''neutral'']"

text \<open>
  The state hooks of the page (\<open>methodName\<close> and \<open>noteText\<close> are the hooks
  \<open>method\<close> and \<open>note\<close>). \<open>detectedEmotion\<close> holds \<open>{emotion, confidence}\<close>;
  the confidence, a number, is kept as the text \<open>confidence.toFixed(1)\<close> gives.
\<close>

record add_mood =
  methodName :: string
  selectedMood :: string
  noteText :: string
  loading :: bool
  showCamera :: bool
  detectedEmotion :: "(string \<times> string) option"

definition AddMood_init :: add_mood where
  "AddMood_init =
     \<lparr>methodName = ''manual'', selectedMood = [], noteText = [], loading = False,
      showCamera = False, detectedEmotion = None\<rparr>"

text \<open>
  \<open>handleManualSubmit\<close> and \<open>handleCameraSubmit\<close>: \<open>!selectedMood\<close> holds of
  the empty text. \<open>setLoading(true)\<close> before the request is undone by the
  \<open>finally\<close> block, so the handler ends with \<open>loading\<close> false.
\<close>

definition handleManualSubmit :: "unit response \<Rightarrow> add_mood \<Rightarrow> add_mood \<times> effect list" where
  "handleManualSubmit resp s =
     (if selectedMood s = [] then (s, [ToastError ''Please select a mood''])
      else
        (let body = \<lparr>body_mood = selectedMood s, body_note = noteText s,
                     body_detection_method = ''manual''\<rparr>
         in case resp of
              Resolved _ \<Rightarrow>
                (s\<lparr>loading := False\<rparr>,
                 [AxiosPost ''/moods'' body, ToastSuccess ''Mood tracked successfully!'',
                  NavigateLater ''/''])
            | Rejected \<Rightarrow>
                (s\<lparr>loading := False\<rparr>,
                 [AxiosPost ''/moods'' body, ConsoleError ''Error saving mood:'',
                  ToastError ''Failed to save mood''])))"

definition handleCameraSubmit :: "unit response \<Rightarrow> add_mood \<Rightarrow> add_mood \<times> effect list" where
  "handleCameraSubmit resp s =
     (if selectedMood s = [] then (s, [ToastError ''Please detect emotion first''])
      else
        (let body = \<lparr>body_mood = selectedMood s, body_note = noteText s,
                     body_detection_method = ''camera''\<rparr>
         in case resp of
              Resolved _ \<Rightarrow>
                (s\<lparr>loading := False\<rparr>,
                 [AxiosPost ''/moods'' body, ToastSuccess ''Mood tracked successfully!'',
                  NavigateLater ''/''])
            | Rejected \<Rightarrow>
                (s\<lparr>loading := False\<rparr>,
                 [AxiosPost ''/moods'' body, ConsoleError ''Error saving mood:'',
                  ToastError ''Failed to save mood''])))"

text \<open>
  What happens to one run of \<open>captureAndDetect\<close>: the webcam reference is not set,
  the screenshot is empty, \<open>fetch(imageSrc)\<close> or the conversion to a blob fails, the
  detect request is rejected, or it resolves with \<open>{emotion, confidence}\<close>.
\<close>

datatype capture =
    CameraNotReady
  | NoScreenshot
  | FetchFailed
  | DetectRejected
  | Detected string string

definition captureAndDetect :: "capture \<Rightarrow> add_mood \<Rightarrow> add_mood \<times> effect list" where
  "captureAndDetect c s =
     (case c of
        CameraNotReady \<Rightarrow> (s, [ToastError ''Camera not ready''])
      | NoScreenshot \<Rightarrow> (s\<lparr>loading := False\<rparr>, [ToastError ''Failed to capture image''])
      | FetchFailed \<Rightarrow>
          (s\<lparr>loading := False\<rparr>,
           [FetchImage, ConsoleError ''Error detecting emotion:'',
            ToastError ''Failed to detect emotion. Please try again or select manually.''])
      | DetectRejected \<Rightarrow>
          (s\<lparr>loading := False\<rparr>,
           [FetchImage, AxiosPostForm ''/moods/detect'', ConsoleError ''Error detecting emotion:'',
            ToastError ''Failed to detect emotion. Please try again or select manually.''])
      | Detected emotion confidence \<Rightarrow>
          (s\<lparr>detectedEmotion := Some (emotion, confidence), selectedMood := emotion,
             methodName := ''camera'', showCamera := False, loading := False\<rparr>,
           [FetchImage, AxiosPostForm ''/moods/detect'',
            ToastSuccess (''Detected: '' @ emotion @ '' ('' @ confidence @ ''% confidence)'')]))"

text \<open>
  The events of the page, one per control of the rendered tree, with the outcome of the
  request the handler awaits. The inline handlers are written out in \<open>add_mood_step\<close>.
  A control takes a click only while it is rendered and not disabled:
  the two method buttons always; the five mood buttons (one per element of \<open>MOODS\<close>),
  the note and the manual save button (\<open>disabled={loading || !selectedMood}\<close>) in
  the manual card, rendered when \<open>method === "manual"\<close>; the capture button
  (\<open>disabled={loading}\<close>) in the camera card while \<open>showCamera\<close>; the note,
  the retake button and the camera save button (\<open>disabled={loading}\<close>) in the
  camera card once \<open>showCamera\<close> is off and \<open>detectedEmotion\<close> is set.
  Each handler runs to its end before the next event.
\<close>

datatype add_mood_event =
    ClickManualMethod
  | ClickCameraMethod
  | ClickMood string
  | ChangeNote string
  | ClickSubmitManual "unit response"
  | ClickCapture capture
  | ClickRetake
  | ClickSubmitCamera "unit response"

definition detected_view :: "add_mood \<Rightarrow> bool" where
  "detected_view s = (methodName s = ''camera'' \<and> \<not> showCamera s \<and> detectedEmotion s \<noteq> None)"

fun enabled :: "add_mood \<Rightarrow> add_mood_event \<Rightarrow> bool" where
  "enabled s ClickManualMethod = True"
| "enabled s ClickCameraMethod = True"
| "enabled s (ClickMood name) = (methodName s = ''manual'' \<and> name \<in> set MOODS)"
| "enabled s (ChangeNote txt) = (methodName s = ''manual'' \<or> detected_view s)"
| "enabled s (ClickSubmitManual resp) =
     (methodName s = ''manual'' \<and> \<not> (loading s \<or> selectedMood s = []))"
| "enabled s (ClickCapture c) = (methodName s = ''camera'' \<and> showCamera s \<and> \<not> loading s)"
| "enabled s ClickRetake = detected_view s"
| "enabled s (ClickSubmitCamera resp) = (detected_view s \<and> \<not> loading s)"

fun handler :: "add_mood_event \<Rightarrow> add_mood \<Rightarrow> add_mood \<times> effect list" where
  "handler ClickManualMethod s =
     (s\<lparr>methodName := ''manual'', showCamera := False, detectedEmotion := None\<rparr>, [])"
| "handler ClickCameraMethod s =
     (s\<lparr>methodName := ''camera'', showCamera := True, selectedMood := []\<rparr>, [])"
| "handler (ClickMood name) s = (s\<lparr>selectedMood := name\<rparr>, [])"
| "handler (ChangeNote txt) s = (s\<lparr>noteText := txt\<rparr>, [])"
| "handler (ClickSubmitManual resp) s = handleManualSubmit resp s"
| "handler (ClickCapture c) s = captureAndDetect c s"
| "handler ClickRetake s =
     (s\<lparr>showCamera := True, detectedEmotion := None, selectedMood := []\<rparr>, [])"
| "handler (ClickSubmitCamera resp) s = handleCameraSubmit resp s"

definition add_mood_step :: "add_mood_event \<Rightarrow> add_mood \<Rightarrow> add_mood \<times> effect list" where
  "add_mood_step ev s = (if enabled s ev then handler ev s else (s, []))"

fun add_mood_run :: "add_mood_event list \<Rightarrow> add_mood \<Rightarrow> add_mood \<times> effect list" where
  "add_mood_run [] s = (s, [])"
| "add_mood_run (ev # evs) s =
     (let (s1, effs1) = add_mood_step ev s;
          (s2, effs2) = add_mood_run evs s1
      in (s2, effs1 @ effs2))"

text \<open>The bodies of the \<open>POST /api/moods\<close> requests among the effects.\<close>

fun posted :: "effect list \<Rightarrow> mood_body list" where
  "posted [] = []"
| "posted (AxiosPost url body # effs) =
     (if url = ''/moods'' then body # posted effs else posted effs)"
| "posted (_ # effs) = posted effs"

text \<open>The \<open>emotion\<close> fields of the detect responses among the events.\<close>

fun detected_emotions :: "add_mood_event list \<Rightarrow> string list" where
  "detected_emotions [] = []"
| "detected_emotions (ClickCapture (Detected emotion confidence) # evs) =
     emotion # detected_emotions evs"
| "detected_emotions (_ # evs) = detected_emotions evs"

section \<open>The backend, as far as deletion goes\<close>

text \<open>
  Modelled from the spec: the backend is not part of this repository. Its store is
  the list of entries, and \<open>DELETE /api/moods/{id}\<close> removes the entry with that
  identifier.
\<close>

definition backend_delete :: "string \<Rightarrow> mood_entry list \<Rightarrow> mood_entry list" where
  "backend_delete moodId store = filter (\<lambda>m. entry_id m \<noteq> moodId) store"

text \<open>
  Modelled from the spec: \<open>GET /api/moods\<close> of that backend, which answers with
  the entries of its store.
\<close>

definition backend_get_moods :: "mood_entry list \<Rightarrow> mood_entry list response" where
  "backend_get_moods store = Resolved store"

text \<open>
  The identifier in the path of a request: \<open>stripPrefix p url\<close> is the rest of
  \<open>url\<close> after the prefix \<open>p\<close>, if it starts with it.
\<close>

fun stripPrefix :: "string \<Rightarrow> string \<Rightarrow> string option" where
  "stripPrefix [] ys = Some ys"
| "stripPrefix (x # xs) [] = None"
| "stripPrefix (x # xs) (y # ys) = (if x = y then stripPrefix xs ys else None)"

text \<open>
  Modelled from the spec: what a successful \<open>DELETE\<close> request does to the store of
  that backend. A request to \<open>/api/moods/{id}\<close> removes the entry with the
  identifier of its path; any other path leaves the store as it is.
\<close>

definition backend_delete_request :: "string \<Rightarrow> mood_entry list \<Rightarrow> mood_entry list" where
  "backend_delete_request url store =
     (case stripPrefix ''/moods/'' url of
        None \<Rightarrow> store
      | Some moodId \<Rightarrow> backend_delete moodId store)"

text \<open>
  Modelled from the spec: that backend serving the requests a handler issued, in the
  order it issued them, from the store \<open>store\<close>. \<open>del\<close> and \<open>refetch\<close> are
  the outcomes the handler saw for its DELETE and its \<open>GET /api/moods\<close>. A DELETE
  that succeeded has removed the entry its path names, one that failed has changed
  nothing; a list request that succeeded has answered with the store as it is at that
  moment. The result is the store after the last request, or \<open>None\<close> when the
  backend cannot have given the outcome the handler saw.
\<close>

fun backend_session ::
  "unit response \<Rightarrow> mood_entry list response \<Rightarrow> effect list \<Rightarrow> mood_entry list
     \<Rightarrow> mood_entry list option" where
  "backend_session del refetch [] store = Some store"
| "backend_session del refetch (AxiosDelete url # effs) store =
     (case del of
        Rejected \<Rightarrow> backend_session del refetch effs store
      | Resolved _ \<Rightarrow> backend_session del refetch effs (backend_delete_request url store))"
| "backend_session del refetch (AxiosGet url # effs) store =
     (if url = ''/moods'' \<and> refetch \<noteq> Rejected \<and> refetch \<noteq> backend_get_moods store then None
      else backend_session del refetch effs store)"
| "backend_session del refetch (_ # effs) store = backend_session del refetch effs store"

section \<open>Auxiliary notions for the proofs\<close>

text \<open>
  The date text of an entry, as \<open>groupMoodsByDate\<close> computes it, and what holds of
  the accumulator of its \<open>reduce\<close> once the entries \<open>ms\<close> are consumed: no
  date twice, each bucket holds the consumed entries of its date in order and is not
  empty, and every consumed entry's date has a bucket.
\<close>

definition dateKey :: "(int \<Rightarrow> int) \<Rightarrow> mood_entry \<Rightarrow> date_string" where
  "dateKey tz m = toLocaleDateString tz (entry_timestamp m)"

definition grouped_inv ::
  "(int \<Rightarrow> int) \<Rightarrow> mood_entry list \<Rightarrow> (date_string \<times> mood_entry list) list \<Rightarrow> bool" where
  "grouped_inv tz ms acc =
     (distinct (map fst acc) \<and>
      (\<forall>(d, b)\<in>set acc. b = filter (\<lambda>m. dateKey tz m = d) ms \<and> b \<noteq> []) \<and>
      (\<forall>m\<in>set ms. dateKey tz m \<in> fst ` set acc))"

text \<open>An entry for the examples: identifier, mood and time value.\<close>

definition sample_entry :: "string \<Rightarrow> string \<Rightarrow> int \<Rightarrow> mood_entry" where
  "sample_entry i md t =
     \<lparr>entry_id = i, entry_mood = md, entry_note = [], entry_detection_method = ''manual'',
      entry_timestamp = Some t\<rparr>"

text \<open>The notifications among the effects.\<close>

fun is_toast :: "effect \<Rightarrow> bool" where
  "is_toast (ToastError msg) = True"
| "is_toast (ToastSuccess msg) = True"
| "is_toast _ = False"

text \<open>
  What holds of \<open>selectedMood\<close> throughout a run of the add-mood page whose detect
  responses carry emotions of \<open>E\<close>: it is empty, a name of \<open>MOODS\<close>, or one of
  those emotions.
\<close>

definition mood_ok :: "string set \<Rightarrow> add_mood \<Rightarrow> bool" where
  "mood_ok E s = (selectedMood s = [] \<or> selectedMood s \<in> set MOODS \<union> E)"

section \<open>Most common mood\<close>

lemma foldl_pickMax_ge: "snd mx \<le> snd (foldl pickMax mx es)"
proof (induction es arbitrary: mx)
  case Nil
  show ?case by simp
next
  case (Cons e es)
  have "snd mx \<le> snd (pickMax mx e)" by (simp add: pickMax_def)
  also have "\<dots> \<le> snd (foldl pickMax (pickMax mx e) es)" by (rule Cons.IH)
  finally show ?case by simp
qed

lemma foldl_pickMax_upper: "x \<in> set es \<Longrightarrow> snd x \<le> snd (foldl pickMax mx es)"
proof (induction es arbitrary: mx)
  case Nil
  then show ?case by simp
next
  case (Cons e es)
  show ?case
  proof (cases "x = e")
    case True
    have "snd e \<le> snd (pickMax mx e)" by (simp add: pickMax_def)
    also have "\<dots> \<le> snd (foldl pickMax (pickMax mx e) es)" by (rule foldl_pickMax_ge)
    finally show ?thesis using True by simp
  next
    case False
    with Cons.prems have "x \<in> set es" by simp
    then show ?thesis using Cons.IH by simp
  qed
qed

lemma foldl_pickMax_first:
  "\<exists>i<length (e # es).
     foldl pickMax e es = (e # es) ! i \<and>
     (\<forall>j<i. snd ((e # es) ! j) < snd ((e # es) ! i))"
proof (induction es rule: rev_induct)
  case Nil
  show ?case by simp
next
  case (snoc x es)
  then obtain i where i: "i < length (e # es)"
    and r: "foldl pickMax e es = (e # es) ! i"
    and before: "\<forall>j<i. snd ((e # es) ! j) < snd ((e # es) ! i)"
    by blast
  let ?xs = "e # es @ [x]"
  have nth_old: "?xs ! j = (e # es) ! j" if "j < length (e # es)" for j
    using that nth_append [of "e # es" "[x]" j] by simp
  show ?case
  proof (cases "snd x > snd (foldl pickMax e es)")
    case True
    have res: "foldl pickMax e (es @ [x]) = ?xs ! length (e # es)"
      using True nth_append_length [of "e # es" x "[]"] by (simp add: pickMax_def)
    have "snd (?xs ! j) < snd (?xs ! length (e # es))" if "j < length (e # es)" for j
    proof -
      have "(e # es) ! j \<in> set (e # es)" using that by (rule nth_mem)
      then have "snd ((e # es) ! j) \<le> snd (foldl pickMax e es)"
        using foldl_pickMax_ge [of e es] foldl_pickMax_upper [of "(e # es) ! j" es e] by auto
      moreover have "?xs ! length (e # es) = x"
        using nth_append_length [of "e # es" x "[]"] by simp
      ultimately show ?thesis using True nth_old [OF that] by simp
    qed
    with res show ?thesis by (intro exI [of _ "length (e # es)"]) simp
  next
    case False
    have res: "foldl pickMax e (es @ [x]) = ?xs ! i"
      using False r nth_old [OF i] by (simp add: pickMax_def)
    have "snd (?xs ! j) < snd (?xs ! i)" if "j < i" for j
    proof -
      have "j < length (e # es)" using that i by simp
      then show ?thesis using before that nth_old [of j] nth_old [OF i] by simp
    qed
    with res i show ?thesis by (intro exI [of _ i]) simp
  qed
qed

lemma getMostCommonMood_cases:
  assumes st: "stats s = Some d"
    and nonneg: "\<forall>e\<in>set (mood_counts d). 0 \<le> snd e"
  shows "if mood_counts d = [] \<or> (\<forall>e\<in>set (mood_counts d). snd e = 0)
         then getMostCommonMood s = None
         else (\<exists>i<length (mood_counts d).
                 getMostCommonMood s = Some (mood_counts d ! i) \<and>
                 0 < snd (mood_counts d ! i) \<and>
                 (\<forall>j<length (mood_counts d). snd (mood_counts d ! j) \<le> snd (mood_counts d ! i)) \<and>
                 (\<forall>j<i. snd (mood_counts d ! j) < snd (mood_counts d ! i)))"
proof (cases "mood_counts d")
  case Nil
  then show ?thesis using st by (simp add: getMostCommonMood_def)
next
  case (Cons e es)
  let ?r = "foldl pickMax e es"
  obtain i where i: "i < length (e # es)" and r: "?r = (e # es) ! i"
    and before: "\<forall>j<i. snd ((e # es) ! j) < snd ((e # es) ! i)"
    using foldl_pickMax_first [of e es] by blast
  have upper: "snd x \<le> snd ?r" if "x \<in> set (e # es)" for x
    using that foldl_pickMax_ge [of e es] foldl_pickMax_upper [of x es e] by auto
  have res: "getMostCommonMood s = (if 0 < snd ?r then Some ?r else None)"
    using st Cons by (simp add: getMostCommonMood_def split: prod.splits)
  show ?thesis
  proof (cases "\<forall>x\<in>set (e # es). snd x = 0")
    case True
    have "?r \<in> set (e # es)" using i r nth_mem [of i "e # es"] by simp
    with True have "snd ?r = 0" by blast
    with res True Cons show ?thesis by simp
  next
    case False
    then obtain x where x: "x \<in> set (e # es)" and "snd x \<noteq> 0" by blast
    with nonneg Cons have "0 < snd x" by fastforce
    with upper [OF x] have pos: "0 < snd ?r" by simp
    have "\<forall>j<length (e # es). snd ((e # es) ! j) \<le> snd ((e # es) ! i)"
      using upper r by (metis nth_mem)
    with False Cons res pos r i before show ?thesis
      by (auto intro!: exI [of _ i])
  qed
qed

lemma sum_nonneg_zero:
  "\<forall>c\<in>set cs. (0::int) \<le> c \<Longrightarrow> 0 \<le> acc \<Longrightarrow>
     (foldl (\<lambda>sum c. sum + c) acc cs = 0) = (acc = 0 \<and> (\<forall>c\<in>set cs. c = 0))"
proof (induction cs arbitrary: acc)
  case Nil
  show ?case by simp
next
  case (Cons c cs)
  then have "0 \<le> acc + c" "\<forall>c\<in>set cs. 0 \<le> c" by simp_all
  from Cons.IH [OF this(2) this(1)] Cons.prems show ?case by auto
qed

lemma getTotalEntries_zero:
  assumes "stats s = Some d" and "\<forall>e\<in>set (mood_counts d). 0 \<le> snd e"
  shows "(getTotalEntries s = 0) = (mood_counts d = [] \<or> (\<forall>e\<in>set (mood_counts d). snd e = 0))"
  using assms sum_nonneg_zero [of "map snd (mood_counts d)" 0]
  by (auto simp: getTotalEntries_def)

text \<open>
  C1. The counts of the stats endpoint are occurrence counts, so none is negative. On
  such a mapping the total is zero exactly when the mapping is empty or every count is
  zero, and then \<open>getMostCommonMood\<close> yields no result; otherwise it yields an entry
  of the mapping whose count is positive and the maximum over the mapping, and every
  entry before it in iteration order has a strictly smaller count (among equal maxima
  the first one wins).
\<close>

theorem getMostCommonMood_max_first:
  assumes st: "stats s = Some d"
    and nonneg: "\<forall>e\<in>set (mood_counts d). 0 \<le> snd e"
  shows "(getTotalEntries s = 0) =
           (mood_counts d = [] \<or> (\<forall>e\<in>set (mood_counts d). snd e = 0)) \<and>
         (if mood_counts d = [] \<or> (\<forall>e\<in>set (mood_counts d). snd e = 0)
          then getMostCommonMood s = None
          else (\<exists>i<length (mood_counts d).
                  getMostCommonMood s = Some (mood_counts d ! i) \<and>
                  0 < snd (mood_counts d ! i) \<and>
                  (\<forall>j<length (mood_counts d). snd (mood_counts d ! j) \<le> snd (mood_counts d ! i)) \<and>
                  (\<forall>j<i. snd (mood_counts d ! j) < snd (mood_counts d ! i))))"
  using getTotalEntries_zero [OF st nonneg] getMostCommonMood_cases [OF st nonneg]
  by (rule conjI)

theorem getMostCommonMood_max_first_witness:
  "list_all (\<lambda>e. 0 \<le> snd e) [(''happy'', 2), (''sad'', 5), (''angry'', 5), (''neutral'', 0 :: int)] \<and>
   getMostCommonMood
     \<lparr>stats = Some \<lparr>mood_counts = [(''happy'', 2), (''sad'', 5), (''angry'', 5), (''neutral'', 0)]\<rparr>,
      statistics_loading = False\<rparr> = Some (''sad'', 5)"
proof -
  let ?d = "\<lparr>mood_counts = [(''happy'', 2), (''sad'', 5), (''angry'', 5), (''neutral'', 0)]\<rparr>"
  let ?s = "\<lparr>stats = Some ?d, statistics_loading = False\<rparr>"
  have h1: "stats ?s = Some ?d" by simp
  have h2: "\<forall>e\<in>set (mood_counts ?d). 0 \<le> snd e" by simp
  show ?thesis
    using getMostCommonMood_max_first [OF h1 h2]
    by (simp add: getMostCommonMood_def pickMax_def)
qed

section \<open>Grouping the history by date\<close>

lemma groupStep_present:
  assumes "map_of acc (dateKey tz m) \<noteq> None"
  shows "groupStep tz acc m =
         map (\<lambda>(d, b). if d = dateKey tz m then (d, b @ [m]) else (d, b)) acc"
  using assms by (simp add: groupStep_def dateKey_def Let_def)

lemma groupStep_absent:
  assumes "map_of acc (dateKey tz m) = None"
  shows "groupStep tz acc m = acc @ [(dateKey tz m, [m])]"
proof -
  have "map (\<lambda>(d, b). if d = dateKey tz m then (d, b @ [m]) else (d, b)) acc = acc"
    using assms by (intro map_idI) (auto simp: map_of_eq_None_iff image_iff)
  then show ?thesis using assms by (simp add: groupStep_def dateKey_def Let_def)
qed

lemma map_fst_groupStep_present:
  "map fst (map (\<lambda>(d, b). if d = k then (d, b @ [m]) else (d, b)) acc) = map fst acc"
  by (induction acc) auto

lemma grouped_inv_step:
  assumes inv: "grouped_inv tz ms acc"
  shows "grouped_inv tz (ms @ [m]) (groupStep tz acc m)"
proof -
  let ?k = "dateKey tz m"
  from inv have dist: "distinct (map fst acc)"
    and buckets: "\<And>d b. (d, b) \<in> set acc \<Longrightarrow> b = filter (\<lambda>x. dateKey tz x = d) ms \<and> b \<noteq> []"
    and keys: "\<And>x. x \<in> set ms \<Longrightarrow> dateKey tz x \<in> fst ` set acc"
    unfolding grouped_inv_def by auto
  show ?thesis
  proof (cases "map_of acc ?k")
    case None
    then have new: "?k \<notin> fst ` set acc" by (simp add: map_of_eq_None_iff)
    have other: "dateKey tz x \<noteq> ?k" if "x \<in> set ms" for x
      using keys [OF that] new by metis
    then have nokey: "filter (\<lambda>x. dateKey tz x = ?k) ms = []"
      unfolding filter_empty_conv by blast
    have d1: "distinct (map fst (acc @ [(?k, [m])]))" using dist new by simp
    have d2: "b = filter (\<lambda>x. dateKey tz x = d) (ms @ [m]) \<and> b \<noteq> []"
      if "(d, b) \<in> set (acc @ [(?k, [m])])" for d b
    proof (cases "(d, b) \<in> set acc")
      case True
      then have "d \<noteq> ?k" using new by (metis fst_conv imageI)
      then show ?thesis using buckets [OF True] by auto
    next
      case False
      with that have "d = ?k" "b = [m]" by auto
      then show ?thesis using nokey by simp
    qed
    have d3: "dateKey tz x \<in> fst ` set (acc @ [(?k, [m])])" if "x \<in> set (ms @ [m])" for x
      using that keys by auto
    show ?thesis
      unfolding groupStep_absent [OF None] grouped_inv_def using d1 d2 d3 by blast
  next
    case (Some b0)
    then have ne: "map_of acc ?k \<noteq> None" by simp
    let ?acc' = "map (\<lambda>(d, b). if d = ?k then (d, b @ [m]) else (d, b)) acc"
    have old: "?k \<in> fst ` set acc" using Some by (metis map_of_SomeD fst_conv imageI)
    have fsts: "map fst ?acc' = map fst acc" by (rule map_fst_groupStep_present)
    have d1: "distinct (map fst ?acc')" using dist by (simp only: fsts)
    have d2: "b = filter (\<lambda>x. dateKey tz x = d) (ms @ [m]) \<and> b \<noteq> []"
      if "(d, b) \<in> set ?acc'" for d b
    proof -
      from that obtain d0 b1 where in0: "(d0, b1) \<in> set acc"
        and eq: "(d, b) = (if d0 = ?k then (d0, b1 @ [m]) else (d0, b1))"
        by auto
      show ?thesis using buckets [OF in0] eq by (auto split: if_splits)
    qed
    have "set (map fst ?acc') = set (map fst acc)" by (simp only: fsts)
    then have "fst ` set ?acc' = fst ` set acc" by (simp only: set_map)
    then have d3: "dateKey tz x \<in> fst ` set ?acc'" if "x \<in> set (ms @ [m])" for x
      using that keys old by auto
    show ?thesis
      unfolding groupStep_present [OF ne] grouped_inv_def using d1 d2 d3 by blast
  qed
qed

lemma grouped_inv_foldl: "grouped_inv tz ms (foldl (groupStep tz) [] ms)"
proof (induction ms rule: rev_induct)
  case Nil
  show ?case by (simp add: grouped_inv_def)
next
  case (snoc m ms)
  then show ?case using grouped_inv_step [of tz ms _ m] by simp
qed


text \<open>
  C2. Grouping by date is a partition of the list. The empty list gives the empty
  grouping. For every list, no date keys two buckets; every entry of the list is in the
  bucket keyed by the local date text of its timestamp; each bucket holds exactly the
  entries of the list that have its date (so none from outside the list), as often and
  in the order the list has them; and no entry is in two buckets.
\<close>

theorem groupMoodsByDate_partition:
  "groupedMoods (groupMoodsByDate tz [] s) = [] \<and>
   (let g = groupedMoods (groupMoodsByDate tz ms s) in
      distinct (map fst g) \<and>
      (\<forall>m\<in>set ms. \<exists>b. (toLocaleDateString tz (entry_timestamp m), b) \<in> set g \<and> m \<in> set b) \<and>
      (\<forall>(d, b)\<in>set g. b = filter (\<lambda>m. toLocaleDateString tz (entry_timestamp m) = d) ms) \<and>
      (\<forall>(d, b)\<in>set g. \<forall>(d', b')\<in>set g. \<forall>m. m \<in> set b \<and> m \<in> set b' \<longrightarrow> (d, b) = (d', b')))"
proof -
  let ?g = "foldl (groupStep tz) [] ms"
  have g: "groupedMoods (groupMoodsByDate tz ms s) = ?g" by (simp add: groupMoodsByDate_def)
  have inv: "grouped_inv tz ms ?g" by (rule grouped_inv_foldl)
  then have dist: "distinct (map fst ?g)"
    and buckets: "\<And>d b. (d, b) \<in> set ?g \<Longrightarrow> b = filter (\<lambda>x. dateKey tz x = d) ms"
    and keys: "\<And>x. x \<in> set ms \<Longrightarrow> dateKey tz x \<in> fst ` set ?g"
    unfolding grouped_inv_def by auto
  have c1: "groupedMoods (groupMoodsByDate tz [] s) = []" by (simp add: groupMoodsByDate_def)
  have c3: "\<exists>b. (dateKey tz m, b) \<in> set ?g \<and> m \<in> set b" if "m \<in> set ms" for m
  proof -
    from keys [OF that] obtain b where b: "(dateKey tz m, b) \<in> set ?g" by force
    with buckets [OF b] that have "m \<in> set b" by simp
    with b show ?thesis by blast
  qed
  have c5: "(d, b) = (d', b')"
    if "(d, b) \<in> set ?g" "(d', b') \<in> set ?g" "m \<in> set b" "m \<in> set b'" for d b d' b' m
  proof -
    from that buckets [of d b] buckets [of d' b'] have "dateKey tz m = d" "dateKey tz m = d'"
      by auto
    then have "d = d'" by simp
    with that buckets [of d b] buckets [of d' b'] show ?thesis by simp
  qed
  show ?thesis
    unfolding Let_def g using c1 dist c3 buckets c5
    unfolding g dateKey_def by blast
qed

theorem groupMoodsByDate_partition_witness:
  "groupedMoods
     (groupMoodsByDate (\<lambda>t. 0)
        [sample_entry ''a'' ''happy'' 1000, sample_entry ''b'' ''sad'' 86400000,
         sample_entry ''c'' ''angry'' 2000] History_init)
   = [(LongDate 0, [sample_entry ''a'' ''happy'' 1000, sample_entry ''c'' ''angry'' 2000]),
      (LongDate 1, [sample_entry ''b'' ''sad'' 86400000])]"
  using groupMoodsByDate_partition
    [of "\<lambda>t. 0" History_init
        "[sample_entry ''a'' ''happy'' 1000, sample_entry ''b'' ''sad'' 86400000,
          sample_entry ''c'' ''angry'' 2000]"]
  by (simp add: groupMoodsByDate_def groupStep_def toLocaleDateString_def msPerDay_def
      sample_entry_def History_init_def)

section \<open>Submitting without a selection\<close>

text \<open>
  C3. With no mood selected, \<open>handleManualSubmit\<close> shows the error notification
  and returns: that toast is its only effect, so no request is issued (in particular no
  \<open>POST /api/moods\<close>), and the state it returns is the state it was given.
\<close>

theorem handleManualSubmit_rejects_empty:
  "selectedMood s = [] \<Longrightarrow>
     handleManualSubmit resp s = (s, [ToastError ''Please select a mood'']) \<and>
     posted (snd (handleManualSubmit resp s)) = []"
  by (simp add: handleManualSubmit_def)

theorem handleManualSubmit_rejects_empty_witness:
  "selectedMood AddMood_init = [] \<and>
   handleManualSubmit (Resolved ()) AddMood_init = (AddMood_init, [ToastError ''Please select a mood''])"
proof -
  have h: "selectedMood AddMood_init = []" by (simp add: AddMood_init_def)
  show ?thesis using h handleManualSubmit_rejects_empty [OF h, of "Resolved ()"] by simp
qed

section \<open>Recent moods on the dashboard\<close>

text \<open>
  C10. After a successful fetch, \<open>recentMoods\<close> is the prefix of the fetched list
  of length five, or the whole list when it is shorter, in list order; the recent-moods
  card is rendered with exactly these entries when the prefix is not empty, and is not
  rendered otherwise.
\<close>

theorem recent_moods_first_five:
  "recentMoods (fst (fetchRecentMoods (Resolved d) s)) = take 5 d \<and>
   length (take 5 d) = min 5 (length d) \<and>
   (\<forall>i<min 5 (length d). take 5 d ! i = d ! i) \<and>
   recent_moods_card (fst (fetchRecentMoods (Resolved d) s)) =
     (if take 5 d = [] then None else Some (take 5 d))"
  by (simp add: fetchRecentMoods_def recent_moods_card_def min.commute)

theorem recent_moods_first_five_witness:
  "recent_moods_card
     (fst (fetchRecentMoods
        (Resolved [sample_entry ''1'' ''happy'' 6, sample_entry ''2'' ''sad'' 5,
                   sample_entry ''3'' ''angry'' 4, sample_entry ''4'' ''happy'' 3,
                   sample_entry ''5'' ''neutral'' 2, sample_entry ''6'' ''anxious'' 1])
        Dashboard_init))
   = Some [sample_entry ''1'' ''happy'' 6, sample_entry ''2'' ''sad'' 5,
           sample_entry ''3'' ''angry'' 4, sample_entry ''4'' ''happy'' 3,
           sample_entry ''5'' ''neutral'' 2] \<and>
   recent_moods_card (fst (fetchRecentMoods (Resolved []) Dashboard_init)) = None"
  using recent_moods_first_five
    [of "[sample_entry ''1'' ''happy'' 6, sample_entry ''2'' ''sad'' 5,
          sample_entry ''3'' ''angry'' 4, sample_entry ''4'' ''happy'' 3,
          sample_entry ''5'' ''neutral'' 2, sample_entry ''6'' ''anxious'' 1]" Dashboard_init]
    recent_moods_first_five [of "[]" Dashboard_init]
  by simp

section \<open>Export\<close>

lemma gets_append: "gets (xs @ ys) = gets xs @ gets ys"
  by (induction xs rule: gets.induct) simp_all

lemma gets_fetchMoods: "gets (snd (fetchMoods resp tz s)) = [''/moods'']"
  by (cases resp) (simp_all add: fetchMoods_def)

lemma gets_handleDelete:
  "set (gets (snd (handleDelete confirmed del refetch tz moodId s))) \<subseteq> {''/moods''}"
proof (cases del)
  case Rejected
  then show ?thesis by (simp add: handleDelete_def)
next
  case (Resolved u)
  then show ?thesis
    using gets_fetchMoods [of refetch tz s]
    by (simp add: handleDelete_def split_beta gets_append)
qed

lemma gets_handleExport: "gets (handleExport resp today f) = [''/moods/export?format='' @ f]"
  by (cases resp) (simp_all add: handleExport_def)

lemma gets_dashboard:
  "gets (snd (fetchTodayMood resp now d)) = [''/moods'']"
  "gets (snd (fetchRecentMoods resp d)) = [''/moods'']"
  by (cases resp; simp add: fetchTodayMood_def fetchRecentMoods_def split: option.splits list.splits)+

lemma gets_fetchStats: "gets (snd (fetchStats resp st)) = [''/moods/stats'']"
  by (cases resp) (simp_all add: fetchStats_def)

lemma gets_add_mood_step: "gets (snd (add_mood_step ev a)) = []"
proof (cases ev)
  case (ClickSubmitManual r)
  then show ?thesis by (cases r) (simp_all add: add_mood_step_def handleManualSubmit_def Let_def)
next
  case (ClickSubmitCamera r)
  then show ?thesis by (cases r) (simp_all add: add_mood_step_def handleCameraSubmit_def Let_def)
next
  case (ClickCapture c)
  then show ?thesis by (cases c) (simp_all add: add_mood_step_def captureAndDetect_def)
qed (simp_all add: add_mood_step_def)

text \<open>
  C7. For every format \<open>f\<close>, in particular \<open>csv\<close> and \<open>json\<close>,
  \<open>handleExport\<close> issues exactly one GET, to \<open>/api/moods/export?format=f\<close>,
  and on success names the download \<open>mood_export_<date>.f\<close>. The two export
  buttons pass \<open>csv\<close> and \<open>json\<close>, and whatever the event, the history
  page issues no GET other than the list fetch and these two export requests; the
  dashboard and the statistics page only fetch the list and the statistics, and the
  add-mood page issues no GET at all.
\<close>

theorem handleExport_format:
  "gets (handleExport resp today f) = [''/moods/export?format='' @ f] \<and>
   handleExport (Resolved blob) today f =
     [AxiosGet (''/moods/export?format='' @ f),
      Download (''mood_export_'' @ today @ ''.'' @ f),
      ToastSuccess (''Exported as '' @ toUpperCase f)] \<and>
   history_step tz today (ClickExportCsv resp) s = (s, handleExport resp today ''csv'') \<and>
   history_step tz today (ClickExportJson resp) s = (s, handleExport resp today ''json'') \<and>
   set (gets (snd (history_step tz today ev s)))
     \<subseteq> {''/moods'', ''/moods/export?format=csv'', ''/moods/export?format=json''} \<and>
   gets (snd (fetchTodayMood mresp now d)) = [''/moods''] \<and>
   gets (snd (fetchRecentMoods mresp d)) = [''/moods''] \<and>
   gets (snd (fetchStats sresp st)) = [''/moods/stats''] \<and>
   gets (snd (add_mood_step aev a)) = []"
proof -
  have "set (gets (snd (history_step tz today ev s)))
     \<subseteq> {''/moods'', ''/moods/export?format=csv'', ''/moods/export?format=json''}"
  proof (cases ev)
    case (HistoryMount r)
    then show ?thesis using gets_fetchMoods [of r tz s] by (simp add: history_step_def)
  next
    case (ClickDelete i c d r)
    then show ?thesis using gets_handleDelete [of c d r tz i s]
      by (auto simp: history_step_def)
  next
    case (ClickExportCsv r)
    then show ?thesis by (simp add: history_step_def gets_handleExport)
  next
    case (ClickExportJson r)
    then show ?thesis by (simp add: history_step_def gets_handleExport)
  qed
  then show ?thesis
    by (simp add: gets_handleExport gets_dashboard gets_fetchStats gets_add_mood_step
        history_step_def) (simp add: handleExport_def)
qed

theorem handleExport_format_witness:
  "handleExport (Resolved ''id,mood'') ''2024-01-05'' ''csv'' =
     [AxiosGet ''/moods/export?format=csv'', Download ''mood_export_2024-01-05.csv'',
      ToastSuccess ''Exported as CSV'']"
proof -
  have "toUpperCase ''csv'' = ''CSV''" by code_simp
  then show ?thesis
    using handleExport_format [of "Resolved ''id,mood''" "''2024-01-05''" "''csv''" "''id,mood''"]
    by simp
qed

section \<open>Deletion\<close>

lemma set_concat_grouped:
  "grouped_inv tz ms g \<Longrightarrow> set (concat (map snd g)) \<subseteq> set ms"
  unfolding grouped_inv_def by auto

lemma handleDelete_success:
  "handleDelete True (Resolved u) (Resolved moodData) tz moodId s =
     (s\<lparr>moods := moodData, groupedMoods := foldl (groupStep tz) [] moodData,
        history_loading := False\<rparr>,
      [WindowConfirm ''Are you sure you want to delete this mood entry?'',
       AxiosDelete (''/moods/'' @ moodId), ToastSuccess ''Mood entry deleted'',
       AxiosGet ''/moods''])"
  by (simp add: handleDelete_def fetchMoods_def groupMoodsByDate_def)

lemma stripPrefix_append: "stripPrefix p (p @ rest) = Some rest"
  by (induction p) simp_all

lemma backend_delete_request_id:
  "backend_delete_request (''/moods/'' @ moodId) store = backend_delete moodId store"
  unfolding backend_delete_request_def stripPrefix_append by simp

text \<open>
  C8. The user confirms, the DELETE request succeeds and the refetch succeeds, and the
  backend serves the requests that \<open>handleDelete\<close> issues: it removes the entry
  named by the path of the DELETE and then answers the list request with its store.
  Then the handler has sent \<open>DELETE /api/moods/{id}\<close> for the identifier it was
  given, followed by \<open>GET /api/moods\<close>; the store has lost the entry with that
  identifier; and \<open>moods\<close> is that store, so it holds no entry with the identifier,
  nor does any bucket of \<open>groupedMoods\<close>, and no delete button for it is rendered.
\<close>

theorem handleDelete_removes_id:
  assumes run: "handleDelete True del refetch tz moodId s = (s', effs)"
    and del_ok: "del = Resolved u"
    and refetch_ok: "refetch = Resolved moodData"
    and served: "backend_session del refetch effs store = Some store'"
  shows "effs = [WindowConfirm ''Are you sure you want to delete this mood entry?'',
                 AxiosDelete (''/moods/'' @ moodId), ToastSuccess ''Mood entry deleted'',
                 AxiosGet ''/moods''] \<and>
         store' = backend_delete moodId store \<and>
         moods s' = store' \<and>
         (\<forall>m\<in>set (moods s'). entry_id m \<noteq> moodId) \<and>
         (\<forall>(d, b)\<in>set (groupedMoods s'). \<forall>m\<in>set b. entry_id m \<noteq> moodId) \<and>
         moodId \<notin> set (rendered_ids s')"
proof -
  let ?data = "backend_delete moodId store"
  from run del_ok refetch_ok
  have s': "s' = s\<lparr>moods := moodData, groupedMoods := foldl (groupStep tz) [] moodData,
                     history_loading := False\<rparr>"
    and effs: "effs = [WindowConfirm ''Are you sure you want to delete this mood entry?'',
                 AxiosDelete (''/moods/'' @ moodId), ToastSuccess ''Mood entry deleted'',
                 AxiosGet ''/moods'']"
    by (simp_all add: handleDelete_success)
  from served have answered: "moodData = ?data \<and> store' = ?data"
    unfolding effs del_ok refetch_ok
    by (auto simp: backend_delete_request_def backend_get_moods_def split: if_splits)
  have gone: "entry_id m \<noteq> moodId" if "m \<in> set ?data" for m
    using that by (simp add: backend_delete_def)
  have sub: "set (concat (map snd (groupedMoods s'))) \<subseteq> set ?data"
    using set_concat_grouped [OF grouped_inv_foldl [of tz moodData]] s' answered by simp
  have c1: "moods s' = store'" using s' answered by simp
  have c2: "\<forall>m\<in>set (moods s'). entry_id m \<noteq> moodId" using c1 answered gone by simp
  have c3: "\<forall>(d, b)\<in>set (groupedMoods s'). \<forall>m\<in>set b. entry_id m \<noteq> moodId"
    using sub gone by fastforce
  have c4: "moodId \<notin> set (rendered_ids s')"
    using sub gone by (auto simp: rendered_ids_def)
  from effs answered c1 c2 c3 c4 show ?thesis by blast
qed

theorem handleDelete_removes_id_witness:
  "backend_session (Resolved ()) (Resolved [sample_entry ''a'' ''happy'' 1000])
     (snd (handleDelete True (Resolved ()) (Resolved [sample_entry ''a'' ''happy'' 1000])
        (\<lambda>t. 0) ''b''
        \<lparr>moods = [sample_entry ''a'' ''happy'' 1000, sample_entry ''b'' ''sad'' 2000],
         history_loading = False,
         groupedMoods = [(LongDate 0, [sample_entry ''a'' ''happy'' 1000, sample_entry ''b'' ''sad'' 2000])]\<rparr>))
     [sample_entry ''a'' ''happy'' 1000, sample_entry ''b'' ''sad'' 2000]
     = Some [sample_entry ''a'' ''happy'' 1000] \<and>
   moods (fst (handleDelete True (Resolved ()) (Resolved [sample_entry ''a'' ''happy'' 1000])
        (\<lambda>t. 0) ''b''
        \<lparr>moods = [sample_entry ''a'' ''happy'' 1000, sample_entry ''b'' ''sad'' 2000],
         history_loading = False,
         groupedMoods = [(LongDate 0, [sample_entry ''a'' ''happy'' 1000, sample_entry ''b'' ''sad'' 2000])]\<rparr>))
     = [sample_entry ''a'' ''happy'' 1000]"
proof -
  let ?a = "sample_entry ''a'' ''happy'' 1000"
  let ?store = "[?a, sample_entry ''b'' ''sad'' 2000]"
  let ?s = "\<lparr>moods = ?store, history_loading = False, groupedMoods = [(LongDate 0, ?store)]\<rparr>"
  obtain s' effs where run:
    "handleDelete True (Resolved ()) (Resolved [?a]) (\<lambda>t. 0) ''b'' ?s = (s', effs)"
    by (cases "handleDelete True (Resolved ()) (Resolved [?a]) (\<lambda>t. 0) ''b'' ?s")
  then have effs: "effs = [WindowConfirm ''Are you sure you want to delete this mood entry?'',
                 AxiosDelete ''/moods/b'', ToastSuccess ''Mood entry deleted'', AxiosGet ''/moods'']"
    by (simp add: handleDelete_success)
  have served: "backend_session (Resolved ()) (Resolved [?a]) effs ?store = Some [?a]"
    unfolding effs
    by (simp add: backend_delete_request_def backend_delete_def backend_get_moods_def
        sample_entry_def)
  from handleDelete_removes_id [OF run refl refl served] have "moods s' = [?a]" by blast
  with run served show ?thesis by simp
qed

section \<open>Failures of network calls\<close>

text \<open>
  C4, as stated, fails on the fetch operations: a rejected \<open>GET\<close> of the statistics,
  dashboard and history pages is logged to the console and shows no toast.
\<close>

theorem fetch_failure_shows_no_toast:
  "filter is_toast (snd (fetchStats Rejected Statistics_init)) = [] \<and>
   filter is_toast (snd (fetchTodayMood Rejected 0 Dashboard_init)) = [] \<and>
   filter is_toast (snd (fetchRecentMoods Rejected Dashboard_init)) = [] \<and>
   filter is_toast (snd (fetchMoods Rejected (\<lambda>t. 0) History_init)) = []"
  by (simp add: fetchStats_def fetchTodayMood_def fetchRecentMoods_def fetchMoods_def)

text \<open>
  C4, amended. Every failure of a network call is caught where the call is made: the
  handler logs it to the console and returns, with the loading flag (where there is
  one) cleared, and issues no further request, so nothing is retried. The failures of
  the operations that save, detect, delete or export are also shown as an error toast;
  the failures of the four fetch operations are only logged.
\<close>

theorem network_failures_caught:
  "fetchTodayMood Rejected now d =
     (d, [AxiosGet ''/moods'', ConsoleError ''Error fetching today's mood:'']) \<and>
   fetchRecentMoods Rejected d =
     (d\<lparr>dashboard_loading := False\<rparr>,
      [AxiosGet ''/moods'', ConsoleError ''Error fetching recent moods:'']) \<and>
   fetchStats Rejected st =
     (st\<lparr>statistics_loading := False\<rparr>,
      [AxiosGet ''/moods/stats'', ConsoleError ''Error fetching statistics:'']) \<and>
   fetchMoods Rejected tz h =
     (h\<lparr>history_loading := False\<rparr>, [AxiosGet ''/moods'', ConsoleError ''Error fetching moods:'']) \<and>
   handleDelete True Rejected refetch tz moodId h =
     (h, [WindowConfirm ''Are you sure you want to delete this mood entry?'',
          AxiosDelete (''/moods/'' @ moodId), ConsoleError ''Error deleting mood:'',
          ToastError ''Failed to delete mood entry'']) \<and>
   handleDelete True (Resolved u) Rejected tz moodId h =
     (h\<lparr>history_loading := False\<rparr>,
      [WindowConfirm ''Are you sure you want to delete this mood entry?'',
       AxiosDelete (''/moods/'' @ moodId), ToastSuccess ''Mood entry deleted'',
       AxiosGet ''/moods'', ConsoleError ''Error fetching moods:'']) \<and>
   handleExport Rejected today f =
     [AxiosGet (''/moods/export?format='' @ f), ConsoleError ''Error exporting data:'',
      ToastError ''Failed to export data''] \<and>
   (selectedMood a \<noteq> [] \<longrightarrow>
      handleManualSubmit Rejected a =
        (a\<lparr>loading := False\<rparr>,
         [AxiosPost ''/moods''
            \<lparr>body_mood = selectedMood a, body_note = noteText a, body_detection_method = ''manual''\<rparr>,
          ConsoleError ''Error saving mood:'', ToastError ''Failed to save mood''])) \<and>
   (selectedMood a \<noteq> [] \<longrightarrow>
      handleCameraSubmit Rejected a =
        (a\<lparr>loading := False\<rparr>,
         [AxiosPost ''/moods''
            \<lparr>body_mood = selectedMood a, body_note = noteText a, body_detection_method = ''camera''\<rparr>,
          ConsoleError ''Error saving mood:'', ToastError ''Failed to save mood''])) \<and>
   captureAndDetect FetchFailed a =
     (a\<lparr>loading := False\<rparr>,
      [FetchImage, ConsoleError ''Error detecting emotion:'',
       ToastError ''Failed to detect emotion. Please try again or select manually.'']) \<and>
   captureAndDetect DetectRejected a =
     (a\<lparr>loading := False\<rparr>,
      [FetchImage, AxiosPostForm ''/moods/detect'', ConsoleError ''Error detecting emotion:'',
       ToastError ''Failed to detect emotion. Please try again or select manually.''])"
proof -
  have dash: "fetchTodayMood Rejected now d =
       (d, [AxiosGet ''/moods'', ConsoleError ''Error fetching today's mood:''])"
    "fetchRecentMoods Rejected d =
       (d\<lparr>dashboard_loading := False\<rparr>,
        [AxiosGet ''/moods'', ConsoleError ''Error fetching recent moods:''])"
    by (simp_all add: fetchTodayMood_def fetchRecentMoods_def)
  have stat: "fetchStats Rejected st =
       (st\<lparr>statistics_loading := False\<rparr>,
        [AxiosGet ''/moods/stats'', ConsoleError ''Error fetching statistics:''])"
    by (simp add: fetchStats_def)
  have hist: "fetchMoods Rejected tz h =
       (h\<lparr>history_loading := False\<rparr>, [AxiosGet ''/moods'', ConsoleError ''Error fetching moods:''])"
    by (simp add: fetchMoods_def)
  have del: "handleDelete True Rejected refetch tz moodId h =
       (h, [WindowConfirm ''Are you sure you want to delete this mood entry?'',
            AxiosDelete (''/moods/'' @ moodId), ConsoleError ''Error deleting mood:'',
            ToastError ''Failed to delete mood entry''])"
    "handleDelete True (Resolved u) Rejected tz moodId h =
       (h\<lparr>history_loading := False\<rparr>,
        [WindowConfirm ''Are you sure you want to delete this mood entry?'',
         AxiosDelete (''/moods/'' @ moodId), ToastSuccess ''Mood entry deleted'',
         AxiosGet ''/moods'', ConsoleError ''Error fetching moods:''])"
    by (simp_all add: handleDelete_def fetchMoods_def)
  have exp: "handleExport Rejected today f =
       [AxiosGet (''/moods/export?format='' @ f), ConsoleError ''Error exporting data:'',
        ToastError ''Failed to export data'']"
    by (simp add: handleExport_def)
  have sub: "selectedMood a \<noteq> [] \<longrightarrow>
      handleManualSubmit Rejected a =
        (a\<lparr>loading := False\<rparr>,
         [AxiosPost ''/moods''
            \<lparr>body_mood = selectedMood a, body_note = noteText a, body_detection_method = ''manual''\<rparr>,
          ConsoleError ''Error saving mood:'', ToastError ''Failed to save mood''])"
    "selectedMood a \<noteq> [] \<longrightarrow>
      handleCameraSubmit Rejected a =
        (a\<lparr>loading := False\<rparr>,
         [AxiosPost ''/moods''
            \<lparr>body_mood = selectedMood a, body_note = noteText a, body_detection_method = ''camera''\<rparr>,
          ConsoleError ''Error saving mood:'', ToastError ''Failed to save mood''])"
    by (simp_all add: handleManualSubmit_def handleCameraSubmit_def)
  have cap: "captureAndDetect FetchFailed a =
       (a\<lparr>loading := False\<rparr>,
        [FetchImage, ConsoleError ''Error detecting emotion:'',
         ToastError ''Failed to detect emotion. Please try again or select manually.''])"
    "captureAndDetect DetectRejected a =
       (a\<lparr>loading := False\<rparr>,
        [FetchImage, AxiosPostForm ''/moods/detect'', ConsoleError ''Error detecting emotion:'',
         ToastError ''Failed to detect emotion. Please try again or select manually.''])"
    by (simp_all add: captureAndDetect_def)
  from dash stat hist del exp sub cap show ?thesis by blast
qed

theorem network_failures_caught_witness:
  "selectedMood (AddMood_init\<lparr>selectedMood := ''happy''\<rparr>) \<noteq> [] \<and>
   snd (handleManualSubmit Rejected (AddMood_init\<lparr>selectedMood := ''happy''\<rparr>)) =
     [AxiosPost ''/moods'' \<lparr>body_mood = ''happy'', body_note = [], body_detection_method = ''manual''\<rparr>,
      ConsoleError ''Error saving mood:'', ToastError ''Failed to save mood''] \<and>
   snd (handleCameraSubmit Rejected (AddMood_init\<lparr>selectedMood := ''happy''\<rparr>)) =
     [AxiosPost ''/moods'' \<lparr>body_mood = ''happy'', body_note = [], body_detection_method = ''camera''\<rparr>,
      ConsoleError ''Error saving mood:'', ToastError ''Failed to save mood'']"
proof -
  have h: "selectedMood (AddMood_init\<lparr>selectedMood := ''happy''\<rparr>) \<noteq> []" by simp
  show ?thesis
    using h network_failures_caught [where a = "AddMood_init\<lparr>selectedMood := ''happy''\<rparr>"]
    by (simp add: AddMood_init_def)
qed

section \<open>The mood that is posted\<close>

lemma posted_append: "posted (xs @ ys) = posted xs @ posted ys"
  by (induction xs rule: posted.induct) simp_all

lemma handler_mood_ok:
  assumes "mood_ok E s" and "enabled s ev" and "set (detected_emotions [ev]) \<subseteq> E"
  shows "mood_ok E (fst (handler ev s))"
proof (cases ev)
  case (ClickCapture c)
  with assms show ?thesis
    by (cases c) (auto simp: mood_ok_def captureAndDetect_def)
next
  case (ClickSubmitManual r)
  with assms show ?thesis
    by (cases r) (auto simp: mood_ok_def handleManualSubmit_def Let_def)
next
  case (ClickSubmitCamera r)
  with assms show ?thesis
    by (cases r) (auto simp: mood_ok_def handleCameraSubmit_def Let_def)
qed (use assms in \<open>auto simp: mood_ok_def\<close>)

lemma handler_posted:
  assumes "mood_ok E s"
  shows "\<forall>b\<in>set (posted (snd (handler ev s))). body_mood b \<in> set MOODS \<union> E"
proof (cases ev)
  case (ClickCapture c)
  then show ?thesis
    by (cases c) (auto simp: captureAndDetect_def)
next
  case (ClickSubmitManual r)
  with assms show ?thesis
    by (cases r) (auto simp: mood_ok_def handleManualSubmit_def Let_def)
next
  case (ClickSubmitCamera r)
  with assms show ?thesis
    by (cases r) (auto simp: mood_ok_def handleCameraSubmit_def Let_def)
qed simp_all

lemma detected_emotions_Cons:
  "set (detected_emotions (ev # evs)) = set (detected_emotions [ev]) \<union> set (detected_emotions evs)"
  by (induction "ev # evs" rule: detected_emotions.induct) auto

lemma run_posted:
  assumes "mood_ok E s" and "set (detected_emotions evs) \<subseteq> E"
  shows "\<forall>b\<in>set (posted (snd (add_mood_run evs s))). body_mood b \<in> set MOODS \<union> E"
  using assms
proof (induction evs arbitrary: s)
  case Nil
  show ?case by simp
next
  case (Cons ev evs)
  obtain s1 effs1 where step: "add_mood_step ev s = (s1, effs1)" by (cases "add_mood_step ev s")
  obtain s2 effs2 where rest: "add_mood_run evs s1 = (s2, effs2)" by (cases "add_mood_run evs s1")
  from Cons.prems(2) have e1: "set (detected_emotions [ev]) \<subseteq> E"
    and e2: "set (detected_emotions evs) \<subseteq> E"
    using detected_emotions_Cons [of ev evs] by auto
  have ok1: "mood_ok E s1"
    using step Cons.prems(1) handler_mood_ok [OF Cons.prems(1) _ e1]
    by (auto simp: add_mood_step_def split: if_splits)
  have p1: "\<forall>b\<in>set (posted effs1). body_mood b \<in> set MOODS \<union> E"
    using step handler_posted [OF Cons.prems(1), of ev]
    by (auto simp: add_mood_step_def split: if_splits)
  have p2: "\<forall>b\<in>set (posted effs2). body_mood b \<in> set MOODS \<union> E"
    using Cons.IH [OF ok1 e2] rest by simp
  show ?case using step rest p1 p2 by (auto simp: posted_append)
qed

text \<open>
  C5, amended. In every run of the add-mood page from its initial state, the mood of
  every \<open>POST /api/moods\<close> is a name of \<open>MOODS\<close> or the emotion of a detect
  response of the run; so it is one of the five enumerated values whenever every
  detected emotion is.
\<close>

theorem posted_mood_enumerated_or_detected:
  "(\<forall>b\<in>set (posted (snd (add_mood_run evs AddMood_init))).
      body_mood b \<in> set MOODS \<union> set (detected_emotions evs)) \<and>
   (set (detected_emotions evs) \<subseteq> set MOODS \<longrightarrow>
      (\<forall>b\<in>set (posted (snd (add_mood_run evs AddMood_init))). body_mood b \<in> set MOODS))"
proof -
  have ok: "mood_ok E AddMood_init" for E by (simp add: mood_ok_def AddMood_init_def)
  have a: "\<forall>b\<in>set (posted (snd (add_mood_run evs AddMood_init))).
      body_mood b \<in> set MOODS \<union> set (detected_emotions evs)"
    by (rule run_posted [OF ok]) simp
  have b: "\<forall>b\<in>set (posted (snd (add_mood_run evs AddMood_init))). body_mood b \<in> set MOODS"
    if "set (detected_emotions evs) \<subseteq> set MOODS"
    using run_posted [OF ok that] by simp
  from a b show ?thesis by blast
qed

text \<open>
  C5, as stated, fails: the emotion of a detect response is stored and posted as it
  comes, whether or not it is one of the five values.
\<close>

theorem detected_emotion_posted_unchecked:
  "posted (snd (add_mood_run
      [ClickCameraMethod, ClickCapture (Detected ''surprise'' ''87.3''),
       ClickSubmitCamera (Resolved ())] AddMood_init))
   = [\<lparr>body_mood = ''surprise'', body_note = [], body_detection_method = ''camera''\<rparr>] \<and>
   ''surprise'' \<notin> set MOODS"
  by (simp add: add_mood_step_def AddMood_init_def detected_view_def captureAndDetect_def
      handleCameraSubmit_def MOODS_def)

theorem posted_mood_enumerated_or_detected_witness:
  "set (detected_emotions [ClickCameraMethod, ClickCapture (Detected ''sad'' ''87.3''),
       ClickSubmitCamera (Resolved ())]) \<subseteq> set MOODS \<and>
   posted (snd (add_mood_run
      [ClickCameraMethod, ClickCapture (Detected ''sad'' ''87.3''),
       ClickSubmitCamera (Resolved ())] AddMood_init))
   = [\<lparr>body_mood = ''sad'', body_note = [], body_detection_method = ''camera''\<rparr>]"
  using posted_mood_enumerated_or_detected
    [of "[ClickCameraMethod, ClickCapture (Detected ''sad'' ''87.3''),
          ClickSubmitCamera (Resolved ())]"]
  by (simp add: add_mood_step_def AddMood_init_def detected_view_def captureAndDetect_def
      handleCameraSubmit_def MOODS_def)

section \<open>The recorded detection method\<close>

text \<open>
  C6. The camera method button clears \<open>selectedMood\<close>; the manual method button
  does not. After a detection, a click on the manual method button and on the manual
  save button posts the detected mood with \<open>detection_method\<close> \<open>manual\<close>,
  although no mood button was clicked in the run.
\<close>

theorem manual_submit_of_detected_mood:
  "add_mood_run
     [ClickCameraMethod, ClickCapture (Detected ''happy'' ''93.1''), ClickManualMethod,
      ClickSubmitManual (Resolved ())] AddMood_init
   = (\<lparr>methodName = ''manual'', selectedMood = ''happy'', noteText = [], loading = False,
       showCamera = False, detectedEmotion = None\<rparr>,
      [FetchImage, AxiosPostForm ''/moods/detect'',
       ToastSuccess ''Detected: happy (93.1% confidence)'',
       AxiosPost ''/moods''
         \<lparr>body_mood = ''happy'', body_note = [], body_detection_method = ''manual''\<rparr>,
       ToastSuccess ''Mood tracked successfully!'', NavigateLater ''/''])"
  by (simp add: add_mood_step_def AddMood_init_def detected_view_def captureAndDetect_def
      handleManualSubmit_def)

section \<open>Today on the dashboard\<close>

lemma filterToday_valid:
  "\<forall>m\<in>set ms. entry_timestamp m \<noteq> None \<Longrightarrow>
     filterToday today ms = Some (filter (\<lambda>m. isoDate (entry_timestamp m) = Some today) ms)"
  by (induction ms) (auto simp: isoDate_def split: option.splits)

text \<open>
  What \<open>fetchTodayMood\<close> does when every timestamp is valid and no mood is shown
  yet: it shows the first entry of the list whose UTC day is the UTC day of now.
\<close>

lemma fetchTodayMood_first_of_utc_day:
  assumes "\<forall>m\<in>set ms. entry_timestamp m \<noteq> None" and "todayMood s = None"
  shows "today_mood_display (fst (fetchTodayMood (Resolved ms) now s)) =
         find (\<lambda>m. isoDate (entry_timestamp m) = Some (now div msPerDay)) ms"
proof -
  let ?P = "\<lambda>m. isoDate (entry_timestamp m) = Some (now div msPerDay)"
  have "find ?P ms = (case filter ?P ms of [] \<Rightarrow> None | m # _ \<Rightarrow> Some m)"
    by (induction ms) simp_all
  then show ?thesis
    using assms(2) filterToday_valid [OF assms(1), of "now div msPerDay"]
    by (simp add: fetchTodayMood_def today_mood_display_def split: list.splits)
qed

text \<open>
  C9. The dashboard compares UTC days (\<open>toISOString\<close>), the history groups by local
  days (\<open>toLocaleDateString\<close>). In a zone two hours east of UTC: at 01:00 on
  6 January 2024 an entry of 23:30 on 5 January is shown as today's mood, and at 03:00
  on 6 January an entry of 00:30 on 6 January is not.
\<close>

theorem fetchTodayMood_compares_utc_days:
  "today_mood_display
     (fst (fetchTodayMood (Resolved [sample_entry ''a'' ''happy'' 1704490200000]) 1704495600000
        Dashboard_init))
     = Some (sample_entry ''a'' ''happy'' 1704490200000) \<and>
   toLocaleDateString (\<lambda>t. 7200000) (entry_timestamp (sample_entry ''a'' ''happy'' 1704490200000))
     = LongDate 19727 \<and>
   toLocaleDateString (\<lambda>t. 7200000) (Some 1704495600000) = LongDate 19728 \<and>
   today_mood_display
     (fst (fetchTodayMood (Resolved [sample_entry ''b'' ''sad'' 1704493800000]) 1704502800000
        Dashboard_init))
     = None \<and>
   toLocaleDateString (\<lambda>t. 7200000) (entry_timestamp (sample_entry ''b'' ''sad'' 1704493800000))
     = LongDate 19728 \<and>
   toLocaleDateString (\<lambda>t. 7200000) (Some 1704502800000) = LongDate 19728"
  by (simp add: fetchTodayMood_def today_mood_display_def Dashboard_init_def sample_entry_def
      isoDate_def toLocaleDateString_def msPerDay_def)

end
